theory Spec2Isabelle
  imports Complex_Main "HOL-Library.AList"
begin

section \<open>JavaScript values\<close>

text \<open>
  The facade of \<^verbatim>\<open>index.js\<close> is dynamically typed: every argument may be any
  JavaScript value, and the code inspects it with \<^verbatim>\<open>typeof\<close>, \<^verbatim>\<open>||\<close>,
  \<^verbatim>\<open>Array.isArray\<close>, \<^verbatim>\<open>parseFloat\<close> and \<^verbatim>\<open>JSON\<close>. The values are modelled as a
  datatype.

  A number is NaN, one of the two infinities, or finite; a finite number is identified with
  its exact rational value (the code never calculates with numbers, it only tests and
  forwards them; \<^verbatim>\<open>-0\<close> and \<^verbatim>\<open>0\<close> are one value here, both are falsy and both are
  serialised as \<^verbatim>\<open>0\<close>).

  A string is a list of characters, read as code units below 256. An object is the list of
  its own enumerable properties in property order; a JavaScript object holds a key once, so
  the lists that stand for objects have distinct keys. A function is kept as its source text,
  which is what \<^verbatim>\<open>String(f)\<close> yields. Values outside this universe (symbols, big
  integers, objects with accessors, prototypes or a \<^verbatim>\<open>toJSON\<close> method, cyclic objects)
  are not modelled.
\<close>

datatype jsnum = Finite rat | NaN | PosInfinity | NegInfinity

datatype jsval =
    JUndefined
  | JNull
  | JBool bool
  | JNum jsnum
  | JStr string
  | JArr "jsval list"
  | JObj "(string \<times> jsval) list"
  | JFun string

type_synonym props = "(string \<times> jsval) list"

text \<open>\<^verbatim>\<open>typeof v\<close>.\<close>

fun typeof :: "jsval \<Rightarrow> string" where
  "typeof JUndefined = ''undefined''"
| "typeof JNull = ''object''"
| "typeof (JBool b) = ''boolean''"
| "typeof (JNum n) = ''number''"
| "typeof (JStr s) = ''string''"
| "typeof (JArr xs) = ''object''"
| "typeof (JObj kvs) = ''object''"
| "typeof (JFun src) = ''function''"

text \<open>\<^verbatim>\<open>ToBoolean\<close>: the falsy values are \<^verbatim>\<open>undefined\<close>, \<^verbatim>\<open>null\<close>, \<^verbatim>\<open>false\<close>,
  zero, NaN and the empty string.\<close>

fun truthy :: "jsval \<Rightarrow> bool" where
  "truthy JUndefined = False"
| "truthy JNull = False"
| "truthy (JBool b) = b"
| "truthy (JNum (Finite q)) = (q \<noteq> 0)"
| "truthy (JNum NaN) = False"
| "truthy (JNum n) = True"
| "truthy (JStr s) = (s \<noteq> [])"
| "truthy v = True"

text \<open>\<^verbatim>\<open>a || b\<close>.\<close>

definition js_or :: "jsval \<Rightarrow> jsval \<Rightarrow> jsval" where
  "js_or a b = (if truthy a then a else b)"

text \<open>\<^verbatim>\<open>Array.isArray(v)\<close>.\<close>

fun Array_isArray :: "jsval \<Rightarrow> bool" where
  "Array_isArray (JArr xs) = True"
| "Array_isArray v = False"

text \<open>\<^verbatim>\<open>isNaN\<close> on a number, and \<^verbatim>\<open>Number.isFinite(v)\<close>: true exactly of the values of
  type number that are neither NaN nor infinite.\<close>

fun isNaN :: "jsnum \<Rightarrow> bool" where
  "isNaN NaN = True"
| "isNaN n = False"

fun Number_isFinite :: "jsval \<Rightarrow> bool" where
  "Number_isFinite (JNum (Finite q)) = True"
| "Number_isFinite v = False"

subsection \<open>White space and \<^verbatim>\<open>parseFloat\<close>\<close>

text \<open>The white space of the regular expression class \<^verbatim>\<open>\s\<close> and of \<^verbatim>\<open>parseFloat\<close>
  (the same set): tab, line feed, vertical tab, form feed, carriage return, space and the
  no-break space. Its members above code unit 255 are outside the string model.\<close>

definition isWhiteSpace :: "char \<Rightarrow> bool" where
  "isWhiteSpace c = ((of_char c :: nat) \<in> {9, 10, 11, 12, 13, 32, 160})"

definition isDigit :: "char \<Rightarrow> bool" where
  "isDigit c = (48 \<le> (of_char c :: nat) \<and> (of_char c :: nat) \<le> 57)"

text \<open>The value of a run of decimal digits.\<close>

fun digits_value :: "nat \<Rightarrow> string \<Rightarrow> nat" where
  "digits_value acc [] = acc"
| "digits_value acc (c # cs) = digits_value (10 * acc + (of_char c - 48)) cs"

text \<open>An optional sign: the factor and the rest of the text.\<close>

fun read_sign :: "string \<Rightarrow> int \<times> string" where
  "read_sign [] = (1, [])"
| "read_sign (c # cs) =
     (if c = CHR ''+'' then (1, cs) else if c = CHR ''-'' then (-1, cs) else (1, c # cs))"

text \<open>The exponent part: \<^verbatim>\<open>e\<close> or \<^verbatim>\<open>E\<close>, an optional sign and at least one digit;
  anything else is no exponent.\<close>

fun read_exponent :: "string \<Rightarrow> int" where
  "read_exponent [] = 0"
| "read_exponent (c # cs) =
     (if c = CHR ''e'' \<or> c = CHR ''E'' then
        (let (sg, r) = read_sign cs; ds = takeWhile isDigit r
         in if ds = [] then 0 else sg * int (digits_value 0 ds))
      else 0)"

definition scale10 :: "rat \<Rightarrow> int \<Rightarrow> rat" where
  "scale10 q e = (if 0 \<le> e then q * 10 ^ nat e else q / 10 ^ nat (- e))"

text \<open>
  \<^verbatim>\<open>parseFloat\<close> on a string: leading white space is skipped, then the longest prefix that
  is a decimal literal is read (an optional sign, then \<^verbatim>\<open>Infinity\<close> or digits with an
  optional fraction and exponent); the rest of the text is ignored, and there is no number
  when no digit was read: the result is NaN. The value of a finite literal is its exact
  decimal value (the rounding to a double, and with it the overflow of a huge literal to
  \<^verbatim>\<open>Infinity\<close>, is not modelled; whether the result is NaN does not depend on it).
\<close>

definition parseFloat_string :: "string \<Rightarrow> jsnum" where
  "parseFloat_string s =
     (let (sg, r) = read_sign (dropWhile isWhiteSpace s) in
      if take 8 r = ''Infinity'' then (if sg < 0 then NegInfinity else PosInfinity)
      else
        (let ip = takeWhile isDigit r; r1 = dropWhile isDigit r;
             fp = (case r1 of [] \<Rightarrow> [] | c # cs \<Rightarrow> if c = CHR ''.'' then takeWhile isDigit cs else []);
             r2 = (case r1 of [] \<Rightarrow> [] | c # cs \<Rightarrow> if c = CHR ''.'' then dropWhile isDigit cs else r1)
         in if ip = [] \<and> fp = [] then NaN
            else Finite (scale10 (of_int sg * of_nat (digits_value 0 (ip @ fp)))
                                 (read_exponent r2 - int (length fp)))))"

text \<open>
  \<^verbatim>\<open>parseFloat(v)\<close> converts \<^verbatim>\<open>v\<close> to a string first. A number prints as a literal that
  reads back as the same number. \<^verbatim>\<open>undefined\<close>, \<^verbatim>\<open>null\<close>, the booleans and a plain
  object print as \<^verbatim>\<open>undefined\<close>, \<^verbatim>\<open>null\<close>, \<^verbatim>\<open>true\<close>, \<^verbatim>\<open>false\<close> and
  \<^verbatim>\<open>[object Object]\<close>, none of which starts with a number. An array prints as its elements
  joined by commas, \<^verbatim>\<open>null\<close> and \<^verbatim>\<open>undefined\<close> elements as the empty text; a comma
  never continues a number, so the first element decides.
\<close>

fun parseFloat :: "jsval \<Rightarrow> jsnum" where
  "parseFloat (JNum n) = n"
| "parseFloat (JStr s) = parseFloat_string s"
| "parseFloat (JFun src) = parseFloat_string src"
| "parseFloat (JArr []) = NaN"
| "parseFloat (JArr (x # xs)) = parseFloat x"
| "parseFloat v = NaN"

subsection \<open>Own properties, \<^verbatim>\<open>Object.keys\<close> and property reads\<close>

text \<open>The decimal text of an array index.\<close>

fun index_key :: "nat \<Rightarrow> string" where
  "index_key n =
     (if n < 10 then [char_of (48 + n)]
      else index_key (n div 10) @ [char_of (48 + n mod 10)])"

text \<open>
  The own enumerable properties of a value, in order: those of an object; the elements of
  an array and the characters of a string under their indices; none for the other values.
\<close>

fun own_entries :: "jsval \<Rightarrow> props" where
  "own_entries (JObj kvs) = kvs"
| "own_entries (JArr xs) = zip (map index_key [0..<length xs]) xs"
| "own_entries (JStr s) = zip (map index_key [0..<length s]) (map (\<lambda>c. JStr [c]) s)"
| "own_entries v = []"

datatype error = Error string | TypeError string | SyntaxError string

text \<open>\<^verbatim>\<open>Object.keys(v)\<close> throws a TypeError on \<^verbatim>\<open>null\<close> and \<^verbatim>\<open>undefined\<close>.\<close>

fun Object_keys :: "jsval \<Rightarrow> error + string list" where
  "Object_keys JUndefined = Inl (TypeError ''Cannot convert undefined or null to object'')"
| "Object_keys JNull = Inl (TypeError ''Cannot convert undefined or null to object'')"
| "Object_keys v = Inr (map fst (own_entries v))"

text \<open>\<^verbatim>\<open>obj[key]\<close> for a key that \<^verbatim>\<open>Object.keys\<close> returned: a missing property reads
  as \<^verbatim>\<open>undefined\<close>.\<close>

definition get_property :: "jsval \<Rightarrow> string \<Rightarrow> jsval" where
  "get_property obj key = (case map_of (own_entries obj) key of None \<Rightarrow> JUndefined | Some v \<Rightarrow> v)"

text \<open>\<^verbatim>\<open>{...acc, ...v}\<close>: the own properties of \<^verbatim>\<open>v\<close> are written onto \<^verbatim>\<open>acc\<close> one
  after the other; a key that is there already keeps its place and takes the new value.
  Spreading \<^verbatim>\<open>null\<close> or \<^verbatim>\<open>undefined\<close> adds nothing.\<close>

definition object_spread :: "props \<Rightarrow> jsval \<Rightarrow> props" where
  "object_spread acc v = fold (\<lambda>kv a. AList.update (fst kv) (snd kv) a) (own_entries v) acc"

text \<open>
  \<^verbatim>\<open>obj[key] = v\<close> on an object that began as the literal \<^verbatim>\<open>{}\<close> and has only been
  assigned to: a key that is there already takes the new value, a new key is added at the
  end. The key \<^verbatim>\<open>__proto__\<close> is the exception. The assignment finds the accessor that
  every such object inherits from \<^verbatim>\<open>Object.prototype\<close> and runs its setter, which may
  replace the prototype and adds no own property: the list of own properties stays as it is
  (the prototype itself is not part of the model).
  (An object literal with a computed key, \<^verbatim>\<open>{[key]: v}\<close>, the spread and
  \<^verbatim>\<open>JSON.parse\<close> define the property instead of assigning it, and do create an own
  property of that name.)
\<close>

definition js_assign :: "string \<Rightarrow> jsval \<Rightarrow> props \<Rightarrow> props" where
  "js_assign key v obj = (if key = ''__proto__'' then obj else AList.update key v obj)"

subsection \<open>\<^verbatim>\<open>JSON.parse(JSON.stringify(v))\<close>\<close>

text \<open>
  \<^verbatim>\<open>JSON.stringify\<close> has no text for \<^verbatim>\<open>undefined\<close> and for a function: a property
  with such a value is left out of an object, and such an element of an array is written as
  \<^verbatim>\<open>null\<close>. NaN and the infinities are written as \<^verbatim>\<open>null\<close>. Everything else is
  written and read back as it is. \<^const>\<open>JUndefined\<close> as the result of \<open>json_copy\<close>
  stands for "no text".
\<close>

primrec json_copy :: "jsval \<Rightarrow> jsval" where
  "json_copy JUndefined = JUndefined"
| "json_copy JNull = JNull"
| "json_copy (JBool b) = JBool b"
| "json_copy (JNum n) = (case n of Finite q \<Rightarrow> JNum (Finite q) | _ \<Rightarrow> JNull)"
| "json_copy (JStr s) = JStr s"
| "json_copy (JArr xs) =
     JArr (map (\<lambda>y. if y = JUndefined then JNull else y) (map json_copy xs))"
| "json_copy (JObj kvs) =
     JObj (filter (\<lambda>kv. snd kv \<noteq> JUndefined) (map (map_prod id json_copy) kvs))"
| "json_copy (JFun src) = JUndefined"

text \<open>At top level \<^verbatim>\<open>JSON.stringify\<close> returns \<^verbatim>\<open>undefined\<close> when there is no text, and
  \<^verbatim>\<open>JSON.parse(undefined)\<close> throws a SyntaxError.\<close>

definition JSON_parse_stringify :: "jsval \<Rightarrow> error + jsval" where
  "JSON_parse_stringify v =
     (if json_copy v = JUndefined then Inl (SyntaxError ''undefined is not valid JSON'')
      else Inr (json_copy v))"

text \<open>A value that JSON can hold: no \<^verbatim>\<open>undefined\<close>, no function and no NaN or infinite
  number anywhere in it.\<close>

primrec json_clean :: "jsval \<Rightarrow> bool" where
  "json_clean JUndefined = False"
| "json_clean JNull = True"
| "json_clean (JBool b) = True"
| "json_clean (JNum n) = (case n of Finite q \<Rightarrow> True | _ \<Rightarrow> False)"
| "json_clean (JStr s) = True"
| "json_clean (JArr xs) = list_all id (map json_clean xs)"
| "json_clean (JObj kvs) = list_all snd (map (map_prod id json_clean) kvs)"
| "json_clean (JFun src) = False"

section \<open>The delegate and the module's environment\<close>

text \<open>
  \<^verbatim>\<open>MixpanelReactNative\<close>, the native module, is the delegate. Every facade method ends in
  one call of a method of it; what the delegate does with the call is outside the file. The
  delegate is modelled by the list of the calls it has received, oldest first: a call is
  the method's name and the arguments as they were passed. A facade method takes the list
  and returns the new list, with \<open>Inl e\<close> when it threw \<open>e\<close> and \<open>Inr ()\<close> when it
  returned.
\<close>

datatype call = Call string "jsval list"

type_synonym delegate = "call list"

type_synonym outcome = "(error + unit) \<times> delegate"

definition throw :: "error \<Rightarrow> delegate \<Rightarrow> outcome" where
  "throw e d = (Inl e, d)"

definition native :: "string \<Rightarrow> jsval list \<Rightarrow> delegate \<Rightarrow> outcome" where
  "native method args d = (Inr (), d @ [Call method args])"

text \<open>
  The module reads two things it imports: \<^verbatim>\<open>Platform.OS\<close> of react-native and
  \<^verbatim>\<open>package.json\<close>, which is not among the sources. Both are parameters here: the
  platform string, and the two fields of \<^verbatim>\<open>package.json\<close> that are read, of which
  \<^verbatim>\<open>metadata\<close> is a JSON object.
\<close>

record packageJson =
  metadata :: props
  version :: jsval

subsection \<open>Constants\<close>

datatype DevicePlatform = Unknown | Android | iOS

definition INVALID_OBJECT :: string where "INVALID_OBJECT = '' is not a valid json object''"
definition INVALID_STRING :: string where "INVALID_STRING = '' is not a valid string''"
definition REQUIRED_DOUBLE :: string where "REQUIRED_DOUBLE = '' is not a valid number''"

definition PARAMS_TOKEN :: string where "PARAMS_TOKEN = ''token''"
definition PARAMS_DISTINCT_ID :: string where "PARAMS_DISTINCT_ID = ''distinctId''"
definition PARAMS_EVENT_NAME :: string where "PARAMS_EVENT_NAME = ''eventName''"
definition PARAMS_PROPERTIES :: string where "PARAMS_PROPERTIES = ''properties''"
definition PARAMS_PROPERTY_NAME :: string where "PARAMS_PROPERTY_NAME = ''propertyName''"
definition PARAMS_PROP :: string where "PARAMS_PROP = ''prop''"
definition PARAMS_NAME :: string where "PARAMS_NAME = ''name''"
definition PARAMS_CHARGE :: string where "PARAMS_CHARGE = ''charge''"
definition PARAMS_PROPERTY_VALUE :: string where "PARAMS_PROPERTY_VALUE = ''property value''"

definition DEFAULT_OPT_OUT :: jsval where "DEFAULT_OPT_OUT = JBool False"

text \<open>A parameter with a default value takes it when the argument is \<^verbatim>\<open>undefined\<close>.\<close>

definition default_param :: "jsval \<Rightarrow> jsval \<Rightarrow> jsval" where
  "default_param v dflt = (if v = JUndefined then dflt else v)"

section \<open>The helpers\<close>

text \<open>\<^verbatim>\<open>StringHelper.isValid\<close>: \<^verbatim>\<open>typeof str === "string" && !(/^\s*$/).test(str)\<close>. The
  regular expression matches exactly the strings that are white space throughout.\<close>

fun StringHelper_isValid :: "jsval \<Rightarrow> bool" where
  "StringHelper_isValid (JStr s) = (\<not> list_all isWhiteSpace s)"
| "StringHelper_isValid v = False"

definition StringHelper_raiseError :: "string \<Rightarrow> error" where
  "StringHelper_raiseError paramName = Error (paramName @ INVALID_STRING)"

definition ObjectHelper_isValid :: "jsval \<Rightarrow> bool" where
  "ObjectHelper_isValid obj = (typeof obj = ''object'')"

definition ObjectHelper_isValidOrUndefined :: "jsval \<Rightarrow> bool" where
  "ObjectHelper_isValidOrUndefined obj = (obj = JUndefined \<or> ObjectHelper_isValid obj)"

definition ObjectHelper_raiseError :: "string \<Rightarrow> error" where
  "ObjectHelper_raiseError paramName = Error (paramName @ INVALID_OBJECT)"

text \<open>\<^verbatim>\<open>Helper.getDevicePlatform\<close>, a switch on \<^verbatim>\<open>Platform.OS\<close>.\<close>

definition Helper_getDevicePlatform :: "string \<Rightarrow> DevicePlatform" where
  "Helper_getDevicePlatform os =
     (if os = ''android'' then Android else if os = ''ios'' then iOS else Unknown)"

text \<open>\<^verbatim>\<open>Helper.getMetaData\<close>: a JSON copy of \<^verbatim>\<open>packageJson.metadata\<close> on which
  \<^verbatim>\<open>$lib_version\<close> is set to \<^verbatim>\<open>packageJson.version\<close>. The copy of an object is an
  object, so the last case never runs.\<close>

definition Helper_getMetaData :: "packageJson \<Rightarrow> error + props" where
  "Helper_getMetaData pj =
     (case JSON_parse_stringify (JObj (metadata pj)) of
        Inl e \<Rightarrow> Inl e
      | Inr (JObj m) \<Rightarrow> Inr (AList.update ''$lib_version'' (version pj) m)
      | Inr v \<Rightarrow> Inl (TypeError ''Cannot create property $lib_version''))"

section \<open>The facade\<close>

text \<open>
  The three classes hold what their constructors store. A constructor throws unless the
  token is a valid string, so the token of an instance is a string.

  Where a method uses an argument as a property key (\<^verbatim>\<open>properties[prop] = to\<close>), it has
  checked before that the argument is a valid string; the model reads the key off the string
  and closes the case of the other values, which is never reached, with the same error. These
  are assignments to an object that began as \<^verbatim>\<open>{}\<close>, so they are \<open>js_assign\<close>;
  \<^verbatim>\<open>People.union\<close> alone builds its object with a computed key.
\<close>

record People =
  people_token :: string

record Mixpanel =
  token :: string
  people :: People

record MixpanelGroup =
  group_token :: string
  groupKey :: jsval
  groupID :: jsval

definition new_People :: "jsval \<Rightarrow> error + People" where
  "new_People tok =
     (case tok of
        JStr s \<Rightarrow> if \<not> StringHelper_isValid tok then Inl (StringHelper_raiseError PARAMS_TOKEN)
                  else Inr \<lparr>people_token = s\<rparr>
      | _ \<Rightarrow> Inl (StringHelper_raiseError PARAMS_TOKEN))"

definition new_Mixpanel :: "jsval \<Rightarrow> error + Mixpanel" where
  "new_Mixpanel tok =
     (case tok of
        JStr s \<Rightarrow> if \<not> StringHelper_isValid tok then Inl (StringHelper_raiseError PARAMS_TOKEN)
                  else (case new_People tok of Inl e \<Rightarrow> Inl e
                        | Inr p \<Rightarrow> Inr \<lparr>token = s, people = p\<rparr>)
      | _ \<Rightarrow> Inl (StringHelper_raiseError PARAMS_TOKEN))"

definition new_MixpanelGroup :: "jsval \<Rightarrow> jsval \<Rightarrow> jsval \<Rightarrow> error + MixpanelGroup" where
  "new_MixpanelGroup tok gkey gid =
     (case tok of
        JStr s \<Rightarrow> if \<not> StringHelper_isValid tok then Inl (StringHelper_raiseError PARAMS_TOKEN)
                  else Inr \<lparr>group_token = s, groupKey = gkey, groupID = gid\<rparr>
      | _ \<Rightarrow> Inl (StringHelper_raiseError PARAMS_TOKEN))"

subsection \<open>Mixpanel\<close>

text \<open>\<^verbatim>\<open>init\<close>: the call of \<^verbatim>\<open>initialize\<close> is made before the function first awaits.\<close>

definition Mixpanel_init :: "packageJson \<Rightarrow> Mixpanel \<Rightarrow> jsval \<Rightarrow> jsval \<Rightarrow> delegate \<Rightarrow> outcome" where
  "Mixpanel_init pj this optOutTrackingDefault superProperties d =
     (case Helper_getMetaData pj of
        Inl e \<Rightarrow> throw e d
      | Inr md \<Rightarrow>
          native ''initialize''
            [JStr (token this),
             default_param optOutTrackingDefault DEFAULT_OPT_OUT,
             JObj (object_spread (object_spread [] (JObj md))
                     (default_param superProperties (JObj [])))] d)"

definition Mixpanel_identify :: "Mixpanel \<Rightarrow> jsval \<Rightarrow> delegate \<Rightarrow> outcome" where
  "Mixpanel_identify this distinctId d =
     (if \<not> StringHelper_isValid distinctId then throw (StringHelper_raiseError PARAMS_DISTINCT_ID) d
      else native ''identify'' [JStr (token this), distinctId] d)"

definition Mixpanel_track :: "Mixpanel \<Rightarrow> jsval \<Rightarrow> jsval \<Rightarrow> delegate \<Rightarrow> outcome" where
  "Mixpanel_track this eventName properties d =
     (if \<not> StringHelper_isValid eventName then throw (StringHelper_raiseError PARAMS_EVENT_NAME) d
      else if \<not> ObjectHelper_isValidOrUndefined properties
        then throw (ObjectHelper_raiseError PARAMS_PROPERTIES) d
      else native ''track'' [JStr (token this), eventName, js_or properties (JObj [])] d)"

definition Mixpanel_trackWithGroups ::
    "Mixpanel \<Rightarrow> jsval \<Rightarrow> jsval \<Rightarrow> jsval \<Rightarrow> delegate \<Rightarrow> outcome" where
  "Mixpanel_trackWithGroups this eventName properties groups d =
     (if \<not> StringHelper_isValid eventName then throw (StringHelper_raiseError PARAMS_EVENT_NAME) d
      else if \<not> ObjectHelper_isValidOrUndefined properties
        then throw (ObjectHelper_raiseError PARAMS_PROPERTIES) d
      else native ''trackWithGroups''
             [JStr (token this), eventName, js_or properties (JObj []), groups] d)"

definition Mixpanel_registerSuperProperties :: "Mixpanel \<Rightarrow> jsval \<Rightarrow> delegate \<Rightarrow> outcome" where
  "Mixpanel_registerSuperProperties this properties d =
     (if \<not> ObjectHelper_isValidOrUndefined properties
        then throw (ObjectHelper_raiseError PARAMS_PROPERTIES) d
      else native ''registerSuperProperties'' [JStr (token this), js_or properties (JObj [])] d)"

definition Mixpanel_registerSuperPropertiesOnce :: "Mixpanel \<Rightarrow> jsval \<Rightarrow> delegate \<Rightarrow> outcome" where
  "Mixpanel_registerSuperPropertiesOnce this properties d =
     (if \<not> ObjectHelper_isValidOrUndefined properties
        then throw (ObjectHelper_raiseError PARAMS_PROPERTIES) d
      else native ''registerSuperPropertiesOnce''
             [JStr (token this), js_or properties (JObj [])] d)"

subsection \<open>People\<close>

text \<open>\<^verbatim>\<open>set\<close>: \<^verbatim>\<open>properties\<close> starts as \<^verbatim>\<open>{}\<close>; it is replaced by the JSON copy of
  \<^verbatim>\<open>prop || {}\<close> when \<^verbatim>\<open>prop\<close> has type object, and gets the one property
  \<^verbatim>\<open>properties[prop] = to\<close> otherwise.\<close>

definition People_set :: "People \<Rightarrow> jsval \<Rightarrow> jsval \<Rightarrow> delegate \<Rightarrow> outcome" where
  "People_set this prop to d =
     (if ObjectHelper_isValid prop then
        (case JSON_parse_stringify (js_or prop (JObj [])) of
           Inl e \<Rightarrow> throw e d
         | Inr properties \<Rightarrow> native ''set'' [JStr (people_token this), properties] d)
      else if \<not> StringHelper_isValid prop then throw (StringHelper_raiseError PARAMS_PROP) d
      else (case prop of
              JStr key \<Rightarrow>
                native ''set'' [JStr (people_token this), JObj (js_assign key to [])] d
            | _ \<Rightarrow> throw (StringHelper_raiseError PARAMS_PROP) d))"

text \<open>\<^verbatim>\<open>setOnce\<close> assigns \<^verbatim>\<open>prop = prop || {}\<close> first and copies \<^verbatim>\<open>prop\<close> then.\<close>

definition People_setOnce :: "People \<Rightarrow> jsval \<Rightarrow> jsval \<Rightarrow> delegate \<Rightarrow> outcome" where
  "People_setOnce this prop to d =
     (if ObjectHelper_isValid prop then
        (let prop' = js_or prop (JObj []) in
         case JSON_parse_stringify prop' of
           Inl e \<Rightarrow> throw e d
         | Inr properties \<Rightarrow> native ''setOnce'' [JStr (people_token this), properties] d)
      else if \<not> StringHelper_isValid prop then throw (StringHelper_raiseError PARAMS_PROP) d
      else (case prop of
              JStr key \<Rightarrow>
                native ''setOnce'' [JStr (people_token this), JObj (js_assign key to [])] d
            | _ \<Rightarrow> throw (StringHelper_raiseError PARAMS_PROP) d))"

text \<open>The body of the \<^verbatim>\<open>forEach\<close> of \<^verbatim>\<open>increment\<close>, run over the keys in order: the
  first value that does not parse stops the loop with the error.\<close>

fun increment_forEach :: "jsval \<Rightarrow> string list \<Rightarrow> props \<Rightarrow> error + props" where
  "increment_forEach prop [] add = Inr add"
| "increment_forEach prop (key # keys) add =
     (let val = get_property prop key in
      if isNaN (parseFloat val) then Inl (Error (PARAMS_PROPERTY_VALUE @ REQUIRED_DOUBLE))
      else increment_forEach prop keys (js_assign key val add))"

definition People_increment :: "People \<Rightarrow> jsval \<Rightarrow> jsval \<Rightarrow> delegate \<Rightarrow> outcome" where
  "People_increment this prop by d =
     (if ObjectHelper_isValid prop then
        (case Object_keys prop of
           Inl e \<Rightarrow> throw e d
         | Inr keys \<Rightarrow>
             (case increment_forEach prop keys [] of
                Inl e \<Rightarrow> throw e d
              | Inr add \<Rightarrow> native ''increment'' [JStr (people_token this), JObj add] d))
      else
        (let by' = js_or by (JNum (Finite 1)) in
         if isNaN (parseFloat by') then throw (Error (PARAMS_PROPERTY_VALUE @ REQUIRED_DOUBLE)) d
         else if \<not> StringHelper_isValid prop then throw (StringHelper_raiseError PARAMS_NAME) d
         else (case prop of
                 JStr key \<Rightarrow>
                   native ''increment'' [JStr (people_token this), JObj (js_assign key by' [])] d
               | _ \<Rightarrow> throw (StringHelper_raiseError PARAMS_NAME) d)))"

text \<open>\<^verbatim>\<open>append\<close>, \<^verbatim>\<open>union\<close> and \<^verbatim>\<open>remove\<close> read the platform, here the argument
  \<open>os\<close>, the value of \<^verbatim>\<open>Platform.OS\<close>.\<close>

definition People_append :: "string \<Rightarrow> People \<Rightarrow> jsval \<Rightarrow> jsval \<Rightarrow> delegate \<Rightarrow> outcome" where
  "People_append os this name value d =
     (if \<not> StringHelper_isValid name then throw (StringHelper_raiseError PARAMS_NAME) d
      else (case name of
              JStr key \<Rightarrow>
                (let appendProp = js_assign key value [] in
                 if iOS = Helper_getDevicePlatform os
                   then native ''append'' [JStr (people_token this), JObj appendProp] d
                 else native ''append'' [JStr (people_token this), name, value] d)
            | _ \<Rightarrow> throw (StringHelper_raiseError PARAMS_NAME) d))"

definition People_union :: "string \<Rightarrow> People \<Rightarrow> jsval \<Rightarrow> jsval \<Rightarrow> delegate \<Rightarrow> outcome" where
  "People_union os this name value d =
     (if \<not> StringHelper_isValid name then throw (StringHelper_raiseError PARAMS_NAME) d
      else (case name of
              JStr key \<Rightarrow>
                (let value' = (if Array_isArray value then value else JArr [value]) in
                 if iOS = Helper_getDevicePlatform os
                   then native ''union'' [JStr (people_token this), JObj [(key, value')]] d
                 else native ''union'' [JStr (people_token this), name, value'] d)
            | _ \<Rightarrow> throw (StringHelper_raiseError PARAMS_NAME) d))"

definition People_remove :: "string \<Rightarrow> People \<Rightarrow> jsval \<Rightarrow> jsval \<Rightarrow> delegate \<Rightarrow> outcome" where
  "People_remove os this name value d =
     (if \<not> StringHelper_isValid name then throw (StringHelper_raiseError PARAMS_NAME) d
      else (case name of
              JStr key \<Rightarrow>
                (let removeProp = js_assign key value [] in
                 if iOS = Helper_getDevicePlatform os
                   then native ''remove'' [JStr (people_token this), JObj removeProp] d
                 else native ''remove'' [JStr (people_token this), name, value] d)
            | _ \<Rightarrow> throw (StringHelper_raiseError PARAMS_NAME) d))"

definition People_trackCharge :: "People \<Rightarrow> jsval \<Rightarrow> jsval \<Rightarrow> delegate \<Rightarrow> outcome" where
  "People_trackCharge this charge properties d =
     (if isNaN (parseFloat charge) then throw (Error (PARAMS_CHARGE @ REQUIRED_DOUBLE)) d
      else if \<not> ObjectHelper_isValidOrUndefined properties
        then throw (ObjectHelper_raiseError PARAMS_PROPERTIES) d
      else native ''trackCharge''
             [JStr (people_token this), charge, js_or properties (JObj [])] d)"

subsection \<open>MixpanelGroup\<close>

definition MixpanelGroup_set :: "MixpanelGroup \<Rightarrow> jsval \<Rightarrow> jsval \<Rightarrow> delegate \<Rightarrow> outcome" where
  "MixpanelGroup_set this prop to d =
     (if ObjectHelper_isValid prop then
        (case JSON_parse_stringify (js_or prop (JObj [])) of
           Inl e \<Rightarrow> throw e d
         | Inr properties \<Rightarrow>
             native ''groupSetProperties''
               [JStr (group_token this), groupKey this, groupID this, properties] d)
      else if \<not> StringHelper_isValid prop then throw (StringHelper_raiseError PARAMS_PROP) d
      else (case prop of
              JStr key \<Rightarrow>
                native ''groupSetProperties''
                  [JStr (group_token this), groupKey this, groupID this,
                   JObj (js_assign key to [])] d
            | _ \<Rightarrow> throw (StringHelper_raiseError PARAMS_PROP) d))"

definition MixpanelGroup_setOnce :: "MixpanelGroup \<Rightarrow> jsval \<Rightarrow> jsval \<Rightarrow> delegate \<Rightarrow> outcome" where
  "MixpanelGroup_setOnce this prop to d =
     (if ObjectHelper_isValid prop then
        (case JSON_parse_stringify (js_or prop (JObj [])) of
           Inl e \<Rightarrow> throw e d
         | Inr properties \<Rightarrow>
             native ''groupSetPropertyOnce''
               [JStr (group_token this), groupKey this, groupID this, properties] d)
      else if \<not> StringHelper_isValid prop then throw (StringHelper_raiseError PARAMS_PROP) d
      else (case prop of
              JStr key \<Rightarrow>
                native ''groupSetPropertyOnce''
                  [JStr (group_token this), groupKey this, groupID this,
                   JObj (js_assign key to [])] d
            | _ \<Rightarrow> throw (StringHelper_raiseError PARAMS_PROP) d))"

definition MixpanelGroup_remove :: "MixpanelGroup \<Rightarrow> jsval \<Rightarrow> jsval \<Rightarrow> delegate \<Rightarrow> outcome" where
  "MixpanelGroup_remove this name value d =
     (if \<not> StringHelper_isValid name then throw (StringHelper_raiseError PARAMS_PROPERTY_NAME) d
      else native ''groupRemovePropertyValue''
             [JStr (group_token this), groupKey this, groupID this, name, value] d)"

definition MixpanelGroup_union :: "MixpanelGroup \<Rightarrow> jsval \<Rightarrow> jsval \<Rightarrow> delegate \<Rightarrow> outcome" where
  "MixpanelGroup_union this name value d =
     (if \<not> StringHelper_isValid name then throw (StringHelper_raiseError PARAMS_PROPERTY_NAME) d
      else (let value' = (if Array_isArray value then value else JArr [value]) in
            native ''groupUnionProperty''
              [JStr (group_token this), groupKey this, groupID this, name, value'] d))"

section \<open>The shared rule of \<^verbatim>\<open>set\<close> and \<^verbatim>\<open>setOnce\<close>, as a specification\<close>

text \<open>
  The four methods \<^verbatim>\<open>People.set\<close>, \<^verbatim>\<open>People.setOnce\<close>, \<^verbatim>\<open>MixpanelGroup.set\<close>
  and \<^verbatim>\<open>MixpanelGroup.setOnce\<close> each carry their own copy of the code that turns the
  two arguments into a bag. \<open>resolve_bag\<close> is not a translation of any of them: it states
  the rule they are compared with. An argument of type object gives its JSON copy, and
  \<^verbatim>\<open>null\<close> gives the empty bag; a string that is not blank gives the bag of that one
  property; everything else is an error. \<open>forward_bag\<close> is what a method does with the
  outcome of the rule: it throws the error, or calls the delegate with the bag as the
  last argument.
\<close>

definition resolve_bag :: "jsval \<Rightarrow> jsval \<Rightarrow> error + jsval" where
  "resolve_bag prop to =
     (if typeof prop = ''object'' then Inr (json_copy (if prop = JNull then JObj [] else prop))
      else (case prop of
              JStr s \<Rightarrow>
                if list_all isWhiteSpace s then Inl (Error ''prop is not a valid string'')
                else Inr (JObj [(s, to)])
            | _ \<Rightarrow> Inl (Error ''prop is not a valid string'')))"

definition forward_bag :: "string \<Rightarrow> jsval list \<Rightarrow> error + jsval \<Rightarrow> delegate \<Rightarrow> outcome" where
  "forward_bag method args r d =
     (case r of Inl e \<Rightarrow> (Inl e, d) | Inr bag \<Rightarrow> (Inr (), d @ [Call method (args @ [bag])]))"

section \<open>Properties\<close>

subsection \<open>Auxiliary facts\<close>

lemmas message_defs =
  INVALID_OBJECT_def INVALID_STRING_def REQUIRED_DOUBLE_def PARAMS_TOKEN_def
  PARAMS_DISTINCT_ID_def PARAMS_EVENT_NAME_def PARAMS_PROPERTIES_def PARAMS_PROPERTY_NAME_def
  PARAMS_PROP_def PARAMS_NAME_def PARAMS_CHARGE_def PARAMS_PROPERTY_VALUE_def
  StringHelper_raiseError_def ObjectHelper_raiseError_def

lemmas outcome_defs = throw_def native_def

lemma js_or_undefined: "js_or JUndefined b = b"
  by (simp add: js_or_def)

lemma js_or_object_defined: "js_or a (JObj kvs) \<noteq> JUndefined"
  by (cases a) (auto simp: js_or_def)

lemma string_not_object: "\<not> ObjectHelper_isValid (JStr s)"
  by (simp add: ObjectHelper_isValid_def)

lemma update_fresh: "k \<notin> fst ` set al \<Longrightarrow> AList.update k v al = al @ [(k, v)]"
  by (induction al) auto

lemma set_update_subset: "set (AList.update k v al) \<subseteq> insert (k, v) (set al)"
  by (induction al) auto

lemma assign_fresh:
  "k \<noteq> ''__proto__'' \<Longrightarrow> k \<notin> fst ` set al \<Longrightarrow> js_assign k v al = al @ [(k, v)]"
  by (simp add: js_assign_def update_fresh)

lemma set_assign_subset: "set (js_assign k v al) \<subseteq> insert (k, v) (set al)"
  using set_update_subset [of k v al] by (auto simp: js_assign_def)

lemma assign_empty: "k \<noteq> ''__proto__'' \<Longrightarrow> js_assign k v [] = [(k, v)]"
  by (simp add: js_assign_def)

lemma assign_proto: "js_assign ''__proto__'' v al = al"
  by (simp add: js_assign_def)

lemma get_property_distinct:
  assumes "own_entries obj = pre @ (k, v) # rest"
    and "distinct (map fst (pre @ (k, v) # rest))"
  shows "get_property obj k = v"
proof -
  from assms(2) have "k \<notin> fst ` set pre" by auto
  then have "map_of pre k = None" by (simp add: map_of_eq_None_iff)
  then show ?thesis using assms(1) by (simp add: get_property_def map_add_def)
qed

lemma increment_forEach_distinct:
  "own_entries obj = pre @ rest \<Longrightarrow> distinct (map fst (pre @ rest)) \<Longrightarrow>
   ''__proto__'' \<notin> fst ` set rest \<Longrightarrow>
   increment_forEach obj (map fst rest) pre =
     (if \<exists>kv \<in> set rest. isNaN (parseFloat (snd kv))
      then Inl (Error ''property value is not a valid number'')
      else Inr (pre @ rest))"
proof (induction rest arbitrary: pre)
  case Nil
  then show ?case by simp
next
  case (Cons kv rest)
  obtain k v where kv: "kv = (k, v)" by (cases kv)
  from Cons.prems kv have fresh: "k \<notin> fst ` set pre" by auto
  from Cons.prems kv have named: "k \<noteq> ''__proto__''" by auto
  from Cons.prems kv have e: "own_entries obj = (pre @ [(k, v)]) @ rest" by simp
  from Cons.prems kv have d: "distinct (map fst ((pre @ [(k, v)]) @ rest))" by simp
  from Cons.prems have np: "''__proto__'' \<notin> fst ` set rest" by simp
  have get: "get_property obj k = v"
    using Cons.prems(1,2) kv by (intro get_property_distinct [of obj pre k v rest]) simp_all
  show ?case
  proof (cases "isNaN (parseFloat v)")
    case True
    then show ?thesis using get kv by (simp add: message_defs)
  next
    case False
    have "increment_forEach obj (map fst (kv # rest)) pre =
          increment_forEach obj (map fst rest) (pre @ [(k, v)])"
      using get kv False fresh named by (simp add: assign_fresh)
    also have "\<dots> = (if \<exists>kv \<in> set rest. isNaN (parseFloat (snd kv))
      then Inl (Error ''property value is not a valid number'')
      else Inr ((pre @ [(k, v)]) @ rest))"
      by (rule Cons.IH [OF e d np])
    finally show ?thesis using False kv by simp
  qed
qed

lemma increment_forEach_values:
  "increment_forEach obj keys add = Inr add' \<Longrightarrow>
   \<forall>kv \<in> set add. \<not> isNaN (parseFloat (snd kv)) \<Longrightarrow>
   \<forall>kv \<in> set add'. \<not> isNaN (parseFloat (snd kv))"
proof (induction keys arbitrary: add)
  case Nil
  then show ?case by simp
next
  case (Cons key keys)
  let ?v = "get_property obj key"
  from Cons.prems(1) have ok: "\<not> isNaN (parseFloat ?v)"
    by (auto simp: Let_def split: if_splits)
  with Cons.prems(1) have run: "increment_forEach obj keys (js_assign key ?v add) = Inr add'"
    by (simp add: Let_def)
  have "\<forall>kv \<in> set (js_assign key ?v add). \<not> isNaN (parseFloat (snd kv))"
    using set_assign_subset [of key ?v add] ok Cons.prems(2) by auto
  with run show ?case by (rule Cons.IH)
qed

text \<open>The index keys of an array are pairwise different, and none of them is
  \<^verbatim>\<open>__proto__\<close>: \<open>digits_value\<close> reads an index back from its key, and a key holds
  digits only.\<close>

lemma digits_value_snoc:
  "digits_value acc (cs @ [c]) = 10 * digits_value acc cs + (of_char c - 48)"
  by (induction cs arbitrary: acc) auto

lemma digits_value_index_key: "digits_value 0 (index_key n) = n"
proof (induction n rule: index_key.induct)
  case (1 n)
  show ?case
  proof (cases "n < 10")
    case True
    then show ?thesis by (subst index_key.simps) simp
  next
    case False
    have "n mod 10 < 10" by simp
    then have "of_char (char_of (48 + n mod 10) :: char) = 48 + n mod 10"
      by simp
    with False "1.IH" show ?thesis
      by (subst index_key.simps) (simp add: digits_value_snoc)
  qed
qed

lemma index_key_digits: "list_all isDigit (index_key n)"
proof (induction n rule: index_key.induct)
  case (1 n)
  have "n mod 10 < 10" by simp
  then have last: "isDigit (char_of (48 + n mod 10))"
    by (simp add: isDigit_def)
  show ?case
  proof (cases "n < 10")
    case True
    then show ?thesis by (subst index_key.simps) (simp add: isDigit_def)
  next
    case False
    with "1.IH" last show ?thesis by (subst index_key.simps) simp
  qed
qed

lemma index_key_not_proto: "index_key n \<noteq> ''__proto__''"
proof
  assume "index_key n = ''__proto__''"
  with index_key_digits [of n] have "list_all isDigit ''__proto__''" by simp
  then show False by (simp add: isDigit_def)
qed

lemma distinct_index_keys: "distinct (map index_key [0..<n])"
proof -
  have "inj index_key"
    by (rule inj_on_inverseI [where g = "digits_value 0"]) (rule digits_value_index_key)
  then show ?thesis by (simp add: distinct_map inj_on_def)
qed

lemma array_entries:
  "map fst (own_entries (JArr xs)) = map index_key [0..<length xs]
   \<and> map snd (own_entries (JArr xs)) = xs"
  by simp

lemma spread_lookup:
  "distinct (map fst es) \<Longrightarrow>
   map_of (fold (\<lambda>kv a. AList.update (fst kv) (snd kv) a) es acc) k =
     (case map_of es k of Some v \<Rightarrow> Some v | None \<Rightarrow> map_of acc k)"
proof (induction es arbitrary: acc)
  case Nil
  then show ?case by simp
next
  case (Cons e es)
  from Cons.prems have fresh: "map_of es (fst e) = None"
    by (simp add: map_of_eq_None_iff)
  from Cons.prems have "distinct (map fst es)" by simp
  from Cons.IH [OF this, of "AList.update (fst e) (snd e) acc"] fresh
  show ?case by (cases e) (auto simp: update_conv' split: option.splits)
qed

lemma json_copy_clean: "json_clean v \<Longrightarrow> json_copy v = v"
proof (induction v)
  case (JNum n)
  then show ?case by (cases n) auto
next
  case (JArr xs)
  then have "\<forall>x \<in> set xs. json_copy x = x \<and> x \<noteq> JUndefined"
    by (auto simp: list_all_iff)
  then have "map (\<lambda>y. if y = JUndefined then JNull else y) (map json_copy xs) = xs"
    by (induction xs) auto
  then show ?case by simp
next
  case (JObj kvs)
  then have "\<forall>kv \<in> set kvs. json_copy (snd kv) = snd kv \<and> snd kv \<noteq> JUndefined"
    by (fastforce simp: list_all_iff)
  then have "filter (\<lambda>kv. snd kv \<noteq> JUndefined) (map (map_prod id json_copy) kvs) = kvs"
    by (induction kvs) auto
  then show ?case by simp
qed auto

lemma valid_or_undefined_undefined: "ObjectHelper_isValidOrUndefined JUndefined"
  by (simp add: ObjectHelper_isValidOrUndefined_def)

lemma object_copy:
  "typeof prop = ''object'' \<Longrightarrow>
   JSON_parse_stringify (js_or prop (JObj [])) =
     Inr (json_copy (if prop = JNull then JObj [] else prop))"
  by (cases "prop") (simp_all add: JSON_parse_stringify_def js_or_def)

lemma distinct_json_entries:
  "distinct (map fst kvs) \<Longrightarrow>
   distinct (map fst (filter (\<lambda>kv. snd kv \<noteq> JUndefined) (map (map_prod id json_copy) kvs)))"
  by (induction kvs) (auto simp: image_iff)

lemma getMetaData_object:
  "Helper_getMetaData pj =
     Inr (AList.update ''$lib_version'' (version pj)
            (filter (\<lambda>kv. snd kv \<noteq> JUndefined) (map (map_prod id json_copy) (metadata pj))))"
  by (simp add: Helper_getMetaData_def JSON_parse_stringify_def)


subsection \<open>Identity\<close>

text \<open>
  C6. \<^verbatim>\<open>identify("")\<close> and \<^verbatim>\<open>identify(undefined)\<close> throw the error
  \<^verbatim>\<open>distinctId is not a valid string\<close>, as does every argument that is not a valid
  string, and the delegate has received nothing when they throw: its list of calls is the one
  before the call. For a string that is not white space throughout, \<^verbatim>\<open>identify\<close>
  returns, and the delegate has received exactly one more call, \<^verbatim>\<open>identify\<close> with the
  token and the string as it was given.
\<close>

theorem identify_validates:
  "Mixpanel_identify this (JStr []) d = (Inl (Error ''distinctId is not a valid string''), d)
   \<and> Mixpanel_identify this JUndefined d = (Inl (Error ''distinctId is not a valid string''), d)
   \<and> (\<not> StringHelper_isValid distinctId \<longrightarrow>
        Mixpanel_identify this distinctId d = (Inl (Error ''distinctId is not a valid string''), d))
   \<and> (\<not> list_all isWhiteSpace s \<longrightarrow>
        Mixpanel_identify this (JStr s) d =
          (Inr (), d @ [Call ''identify'' [JStr (token this), JStr s]]))"
  by (simp add: Mixpanel_identify_def message_defs outcome_defs)

theorem identify_validates_witness:
  "\<not> list_all isWhiteSpace ''user-123''
   \<and> Mixpanel_identify \<lparr>token = ''tok'', people = \<lparr>people_token = ''tok''\<rparr>\<rparr> (JStr ''user-123'') []
       = (Inr (), [Call ''identify'' [JStr ''tok'', JStr ''user-123'']])
   \<and> \<not> StringHelper_isValid (JStr ''  '')
   \<and> Mixpanel_identify \<lparr>token = ''tok'', people = \<lparr>people_token = ''tok''\<rparr>\<rparr> (JStr ''  '') []
       = (Inl (Error ''distinctId is not a valid string''), [])"
  using identify_validates [of "\<lparr>token = ''tok'', people = \<lparr>people_token = ''tok''\<rparr>\<rparr>" "[]"
      "JStr ''  ''" "''user-123''"]
  by (simp add: isWhiteSpace_def)

subsection \<open>List operations and the platform\<close>

text \<open>
  For a valid name other than \<^verbatim>\<open>__proto__\<close>, \<^verbatim>\<open>People.append\<close> and
  \<^verbatim>\<open>People.remove\<close> call the delegate with two arguments on iOS, the token and the
  one-property object of name and value, and with three on every other platform, the token,
  the name and the value. \<^verbatim>\<open>People.union\<close> does so for every valid name, with the value
  made an array. \<^verbatim>\<open>MixpanelGroup.remove\<close> and \<^verbatim>\<open>MixpanelGroup.union\<close> do not read
  the platform: they always pass the token, the group key, the group id, the name and the
  value.
\<close>

lemma people_list_operations_platform_shape:
  assumes "StringHelper_isValid (JStr name)"
  shows "(name \<noteq> ''__proto__'' \<longrightarrow>
           People_append os this (JStr name) v d =
             (Inr (), d @ [Call ''append''
                (if Helper_getDevicePlatform os = iOS
                 then [JStr (people_token this), JObj [(name, v)]]
                 else [JStr (people_token this), JStr name, v])])
         \<and> People_remove os this (JStr name) v d =
             (Inr (), d @ [Call ''remove''
                (if Helper_getDevicePlatform os = iOS
                 then [JStr (people_token this), JObj [(name, v)]]
                 else [JStr (people_token this), JStr name, v])]))
       \<and> People_union os this (JStr name) v d =
           (Inr (), d @ [Call ''union''
              (if Helper_getDevicePlatform os = iOS
               then [JStr (people_token this),
                     JObj [(name, if Array_isArray v then v else JArr [v])]]
               else [JStr (people_token this), JStr name,
                     if Array_isArray v then v else JArr [v]])])
       \<and> MixpanelGroup_remove g (JStr name) v d =
           (Inr (), d @ [Call ''groupRemovePropertyValue''
              [JStr (group_token g), groupKey g, groupID g, JStr name, v]])
       \<and> MixpanelGroup_union g (JStr name) v d =
           (Inr (), d @ [Call ''groupUnionProperty''
              [JStr (group_token g), groupKey g, groupID g, JStr name,
               if Array_isArray v then v else JArr [v]]])"
  using assms
  by (simp add: People_append_def People_remove_def People_union_def MixpanelGroup_remove_def
      MixpanelGroup_union_def outcome_defs assign_empty)

text \<open>
  C5, where the code departs from it. \<^verbatim>\<open>__proto__\<close> is a valid name. On iOS
  \<^verbatim>\<open>People.append("__proto__", "x")\<close> and \<^verbatim>\<open>People.remove("__proto__", "x")\<close> send
  the empty object as the single map, not the map of name and value: the assignment
  \<^verbatim>\<open>appendProp[name] = value\<close> adds no property of that name. \<^verbatim>\<open>People.union\<close>,
  which builds the map with a computed key, sends the map of name and value for the same
  name, and on the other platforms name and value arrive as two arguments.
\<close>

theorem people_append_remove_proto_name:
  "StringHelper_isValid (JStr ''__proto__'')
   \<and> People_append ''ios'' \<lparr>people_token = ''tok''\<rparr> (JStr ''__proto__'') (JStr ''x'') [] =
       (Inr (), [Call ''append'' [JStr ''tok'', JObj []]])
   \<and> People_remove ''ios'' \<lparr>people_token = ''tok''\<rparr> (JStr ''__proto__'') (JStr ''x'') [] =
       (Inr (), [Call ''remove'' [JStr ''tok'', JObj []]])
   \<and> People_union ''ios'' \<lparr>people_token = ''tok''\<rparr> (JStr ''__proto__'') (JStr ''x'') [] =
       (Inr (), [Call ''union'' [JStr ''tok'', JObj [(''__proto__'', JArr [JStr ''x''])]]])
   \<and> People_append ''android'' \<lparr>people_token = ''tok''\<rparr> (JStr ''__proto__'') (JStr ''x'') [] =
       (Inr (), [Call ''append'' [JStr ''tok'', JStr ''__proto__'', JStr ''x'']])"
  by (simp add: People_append_def People_remove_def People_union_def outcome_defs
      isWhiteSpace_def Helper_getDevicePlatform_def assign_proto)

text \<open>
  C8. For a name that is a string and not white space throughout, \<^verbatim>\<open>People.union\<close>
  forwards an array on either platform: an array as it was given, and a value \<open>v\<close> that
  is no array as the one-element array of \<open>v\<close>.
\<close>

theorem people_union_normalizes_value:
  assumes "\<not> list_all isWhiteSpace name"
  shows "People_union os this (JStr name) (JArr xs) d =
           (Inr (), d @ [Call ''union''
              (if Helper_getDevicePlatform os = iOS
               then [JStr (people_token this), JObj [(name, JArr xs)]]
               else [JStr (people_token this), JStr name, JArr xs])])
       \<and> (\<not> Array_isArray v \<longrightarrow>
            People_union os this (JStr name) v d =
              (Inr (), d @ [Call ''union''
                 (if Helper_getDevicePlatform os = iOS
                  then [JStr (people_token this), JObj [(name, JArr [v])]]
                  else [JStr (people_token this), JStr name, JArr [v]])]))"
  using assms
  by (simp add: People_union_def outcome_defs)

theorem people_union_normalizes_value_witness:
  "\<not> list_all isWhiteSpace ''tags'' \<and> \<not> Array_isArray (JStr ''x'')
   \<and> People_union ''android'' \<lparr>people_token = ''tok''\<rparr> (JStr ''tags'') (JStr ''x'') [] =
       (Inr (), [Call ''union'' [JStr ''tok'', JStr ''tags'', JArr [JStr ''x'']]])
   \<and> People_union ''android'' \<lparr>people_token = ''tok''\<rparr> (JStr ''tags'')
         (JArr [JStr ''x'', JStr ''y'']) [] =
       (Inr (), [Call ''union'' [JStr ''tok'', JStr ''tags'', JArr [JStr ''x'', JStr ''y'']]])
   \<and> People_union ''ios'' \<lparr>people_token = ''tok''\<rparr> (JStr ''tags'') (JStr ''x'') [] =
       (Inr (), [Call ''union'' [JStr ''tok'', JObj [(''tags'', JArr [JStr ''x''])]]])"
  using people_union_normalizes_value [where name = "''tags''" and os = "''android''"
      and this = "\<lparr>people_token = ''tok''\<rparr>" and xs = "[JStr ''x'', JStr ''y'']"
      and v = "JStr ''x''" and d = "[]"]
    people_union_normalizes_value [where name = "''tags''" and os = "''ios''"
      and this = "\<lparr>people_token = ''tok''\<rparr>" and xs = "[]" and v = "JStr ''x''" and d = "[]"]
  by (simp add: isWhiteSpace_def Helper_getDevicePlatform_def)

subsection \<open>Increment by a falsy amount\<close>

text \<open>
  For a name that is a string, not white space throughout and not \<^verbatim>\<open>__proto__\<close>,
  \<^verbatim>\<open>People.increment\<close> with a falsy amount (zero, \<^verbatim>\<open>null\<close>, the empty string,
  \<^verbatim>\<open>undefined\<close>, \<^verbatim>\<open>false\<close>, NaN) forwards the bag that holds 1 under the name:
  \<^verbatim>\<open>by || 1\<close> replaces the amount, also one that was given as 0.
\<close>

lemma increment_falsy_amount_becomes_one:
  assumes "\<not> list_all isWhiteSpace prop" and "prop \<noteq> ''__proto__''" and "\<not> truthy by"
  shows "People_increment this (JStr prop) by d =
           (Inr (), d @ [Call ''increment''
              [JStr (people_token this), JObj [(prop, JNum (Finite 1))]]])"
  using assms
  by (simp add: People_increment_def string_not_object js_or_def outcome_defs assign_empty)

text \<open>
  C9, where the code departs from it. \<^verbatim>\<open>__proto__\<close> is a string that is not blank, and
  \<^verbatim>\<open>People.increment("__proto__", 0)\<close> forwards the empty bag, not the bag that holds 1
  under the name: the amount has become 1, but the assignment \<^verbatim>\<open>add[prop] = by\<close> adds
  no property of that name. For the name \<^verbatim>\<open>count\<close> the bag holds 1 under the name.
\<close>

theorem increment_proto_name_forwards_empty_bag:
  "\<not> list_all isWhiteSpace ''__proto__'' \<and> \<not> truthy (JNum (Finite 0))
   \<and> People_increment \<lparr>people_token = ''tok''\<rparr> (JStr ''__proto__'') (JNum (Finite 0)) [] =
       (Inr (), [Call ''increment'' [JStr ''tok'', JObj []]])
   \<and> People_increment \<lparr>people_token = ''tok''\<rparr> (JStr ''count'') (JNum (Finite 0)) [] =
       (Inr (), [Call ''increment'' [JStr ''tok'', JObj [(''count'', JNum (Finite 1))]]])"
  by (simp add: People_increment_def string_not_object js_or_def outcome_defs isWhiteSpace_def
      js_assign_def)

subsection \<open>Setting \<^verbatim>\<open>null\<close>\<close>

text \<open>
  C10. \<^verbatim>\<open>null\<close> passes \<^verbatim>\<open>ObjectHelper.isValid\<close>, its type tag being \<^verbatim>\<open>object\<close>;
  \<^verbatim>\<open>People.set(null, to)\<close> and \<^verbatim>\<open>People.setOnce(null, to)\<close> do not throw, whatever
  the second argument is, and forward the empty bag.
\<close>

theorem people_set_null_forwards_empty_bag:
  "ObjectHelper_isValid JNull
   \<and> People_set this JNull to d = (Inr (), d @ [Call ''set'' [JStr (people_token this), JObj []]])
   \<and> People_setOnce this JNull to d =
       (Inr (), d @ [Call ''setOnce'' [JStr (people_token this), JObj []]])"
  by (simp add: ObjectHelper_isValid_def People_set_def People_setOnce_def js_or_def
      JSON_parse_stringify_def outcome_defs)

theorem people_set_null_forwards_empty_bag_witness:
  "People_set \<lparr>people_token = ''tok''\<rparr> JNull (JNum (Finite 30)) [] =
       (Inr (), [Call ''set'' [JStr ''tok'', JObj []]])
   \<and> People_setOnce \<lparr>people_token = ''tok''\<rparr> JNull JUndefined [] =
       (Inr (), [Call ''setOnce'' [JStr ''tok'', JObj []]])"
  using people_set_null_forwards_empty_bag [of "\<lparr>people_token = ''tok''\<rparr>" "JNum (Finite 30)" "[]"]
    people_set_null_forwards_empty_bag [of "\<lparr>people_token = ''tok''\<rparr>" JUndefined "[]"]
  by simp

subsection \<open>Property bags that are left out\<close>

text \<open>
  C1, as the code has it. \<^verbatim>\<open>Mixpanel.track\<close>, \<^verbatim>\<open>Mixpanel.trackWithGroups\<close>,
  \<^verbatim>\<open>Mixpanel.registerSuperProperties\<close>, \<^verbatim>\<open>Mixpanel.registerSuperPropertiesOnce\<close> and
  \<^verbatim>\<open>People.trackCharge\<close>: whenever one of them returns, the delegate has received one
  more call, and the argument of that call that stands for \<^verbatim>\<open>properties\<close> is never
  \<^verbatim>\<open>undefined\<close>; it is the empty bag when the caller passed \<^verbatim>\<open>undefined\<close>. With
  \<^verbatim>\<open>undefined\<close> for \<^verbatim>\<open>properties\<close> and the other arguments valid, each of them does
  return. The \<^verbatim>\<open>groups\<close> argument of \<^verbatim>\<open>trackWithGroups\<close> is forwarded as it was
  given.
\<close>

theorem properties_bag_never_undefined:
  "(Mixpanel_track this eventName properties d = (Inr (), d') \<longrightarrow>
      (\<exists>bag. bag \<noteq> JUndefined \<and> (properties = JUndefined \<longrightarrow> bag = JObj [])
         \<and> d' = d @ [Call ''track'' [JStr (token this), eventName, bag]]))
   \<and> (Mixpanel_trackWithGroups this eventName properties groups d = (Inr (), d') \<longrightarrow>
      (\<exists>bag. bag \<noteq> JUndefined \<and> (properties = JUndefined \<longrightarrow> bag = JObj [])
         \<and> d' = d @ [Call ''trackWithGroups'' [JStr (token this), eventName, bag, groups]]))
   \<and> (Mixpanel_registerSuperProperties this properties d = (Inr (), d') \<longrightarrow>
      (\<exists>bag. bag \<noteq> JUndefined \<and> (properties = JUndefined \<longrightarrow> bag = JObj [])
         \<and> d' = d @ [Call ''registerSuperProperties'' [JStr (token this), bag]]))
   \<and> (Mixpanel_registerSuperPropertiesOnce this properties d = (Inr (), d') \<longrightarrow>
      (\<exists>bag. bag \<noteq> JUndefined \<and> (properties = JUndefined \<longrightarrow> bag = JObj [])
         \<and> d' = d @ [Call ''registerSuperPropertiesOnce'' [JStr (token this), bag]]))
   \<and> (People_trackCharge p charge properties d = (Inr (), d') \<longrightarrow>
      (\<exists>bag. bag \<noteq> JUndefined \<and> (properties = JUndefined \<longrightarrow> bag = JObj [])
         \<and> d' = d @ [Call ''trackCharge'' [JStr (people_token p), charge, bag]]))
   \<and> (StringHelper_isValid eventName \<longrightarrow>
        Mixpanel_track this eventName JUndefined d =
          (Inr (), d @ [Call ''track'' [JStr (token this), eventName, JObj []]])
      \<and> Mixpanel_trackWithGroups this eventName JUndefined groups d =
          (Inr (), d @ [Call ''trackWithGroups'' [JStr (token this), eventName, JObj [], groups]]))
   \<and> Mixpanel_registerSuperProperties this JUndefined d =
        (Inr (), d @ [Call ''registerSuperProperties'' [JStr (token this), JObj []]])
   \<and> Mixpanel_registerSuperPropertiesOnce this JUndefined d =
        (Inr (), d @ [Call ''registerSuperPropertiesOnce'' [JStr (token this), JObj []]])
   \<and> (\<not> isNaN (parseFloat charge) \<longrightarrow>
        People_trackCharge p charge JUndefined d =
          (Inr (), d @ [Call ''trackCharge'' [JStr (people_token p), charge, JObj []]]))"
proof -
  have bag: "js_or properties (JObj []) \<noteq> JUndefined
      \<and> (properties = JUndefined \<longrightarrow> js_or properties (JObj []) = JObj [])"
    by (simp add: js_or_object_defined js_or_undefined)
  have track: "Mixpanel_track this eventName properties d = (Inr (), d') \<longrightarrow>
      (\<exists>bag. bag \<noteq> JUndefined \<and> (properties = JUndefined \<longrightarrow> bag = JObj [])
         \<and> d' = d @ [Call ''track'' [JStr (token this), eventName, bag]])"
    using bag by (auto simp: Mixpanel_track_def outcome_defs split: if_splits)
  have groups: "Mixpanel_trackWithGroups this eventName properties groups d = (Inr (), d') \<longrightarrow>
      (\<exists>bag. bag \<noteq> JUndefined \<and> (properties = JUndefined \<longrightarrow> bag = JObj [])
         \<and> d' = d @ [Call ''trackWithGroups'' [JStr (token this), eventName, bag, groups]])"
    using bag by (auto simp: Mixpanel_trackWithGroups_def outcome_defs split: if_splits)
  have reg: "Mixpanel_registerSuperProperties this properties d = (Inr (), d') \<longrightarrow>
      (\<exists>bag. bag \<noteq> JUndefined \<and> (properties = JUndefined \<longrightarrow> bag = JObj [])
         \<and> d' = d @ [Call ''registerSuperProperties'' [JStr (token this), bag]])"
    using bag by (auto simp: Mixpanel_registerSuperProperties_def outcome_defs split: if_splits)
  have once: "Mixpanel_registerSuperPropertiesOnce this properties d = (Inr (), d') \<longrightarrow>
      (\<exists>bag. bag \<noteq> JUndefined \<and> (properties = JUndefined \<longrightarrow> bag = JObj [])
         \<and> d' = d @ [Call ''registerSuperPropertiesOnce'' [JStr (token this), bag]])"
    using bag by (auto simp: Mixpanel_registerSuperPropertiesOnce_def outcome_defs split: if_splits)
  have charge: "People_trackCharge p charge properties d = (Inr (), d') \<longrightarrow>
      (\<exists>bag. bag \<noteq> JUndefined \<and> (properties = JUndefined \<longrightarrow> bag = JObj [])
         \<and> d' = d @ [Call ''trackCharge'' [JStr (people_token p), charge, bag]])"
    using bag by (auto simp: People_trackCharge_def outcome_defs split: if_splits)
  have undef: "(StringHelper_isValid eventName \<longrightarrow>
        Mixpanel_track this eventName JUndefined d =
          (Inr (), d @ [Call ''track'' [JStr (token this), eventName, JObj []]])
      \<and> Mixpanel_trackWithGroups this eventName JUndefined groups d =
          (Inr (), d @ [Call ''trackWithGroups'' [JStr (token this), eventName, JObj [], groups]]))
   \<and> Mixpanel_registerSuperProperties this JUndefined d =
        (Inr (), d @ [Call ''registerSuperProperties'' [JStr (token this), JObj []]])
   \<and> Mixpanel_registerSuperPropertiesOnce this JUndefined d =
        (Inr (), d @ [Call ''registerSuperPropertiesOnce'' [JStr (token this), JObj []]])
   \<and> (\<not> isNaN (parseFloat charge) \<longrightarrow>
        People_trackCharge p charge JUndefined d =
          (Inr (), d @ [Call ''trackCharge'' [JStr (people_token p), charge, JObj []]]))"
    by (simp add: Mixpanel_track_def Mixpanel_trackWithGroups_def
        Mixpanel_registerSuperProperties_def Mixpanel_registerSuperPropertiesOnce_def
        People_trackCharge_def valid_or_undefined_undefined js_or_undefined outcome_defs)
  from track groups reg once charge undef show ?thesis by blast
qed

theorem properties_bag_never_undefined_witness:
  "StringHelper_isValid (JStr ''Purchase'')
   \<and> Mixpanel_track \<lparr>token = ''tok'', people = \<lparr>people_token = ''tok''\<rparr>\<rparr> (JStr ''Purchase'') JUndefined [] =
       (Inr (), [Call ''track'' [JStr ''tok'', JStr ''Purchase'', JObj []]])
   \<and> Mixpanel_registerSuperProperties \<lparr>token = ''tok'', people = \<lparr>people_token = ''tok''\<rparr>\<rparr> JUndefined [] =
       (Inr (), [Call ''registerSuperProperties'' [JStr ''tok'', JObj []]])
   \<and> \<not> isNaN (parseFloat (JNum (Finite 9.99)))
   \<and> People_trackCharge \<lparr>people_token = ''tok''\<rparr> (JNum (Finite 9.99)) JUndefined [] =
       (Inr (), [Call ''trackCharge'' [JStr ''tok'', JNum (Finite 9.99), JObj []]])
   \<and> People_trackCharge \<lparr>people_token = ''tok''\<rparr> (JNum (Finite 9.99)) (JObj [(''item'', JStr ''widget'')]) [] =
       (Inr (), [Call ''trackCharge''
          [JStr ''tok'', JNum (Finite 9.99), JObj [(''item'', JStr ''widget'')]]])"
  using properties_bag_never_undefined [of "\<lparr>token = ''tok'', people = \<lparr>people_token = ''tok''\<rparr>\<rparr>" "JStr ''Purchase''" JUndefined "[]"
      "[Call ''track'' [JStr ''tok'', JStr ''Purchase'', JObj []]]" JUndefined
      "\<lparr>people_token = ''tok''\<rparr>" "JNum (Finite 9.99)"]
    properties_bag_never_undefined [of "\<lparr>token = ''tok'', people = \<lparr>people_token = ''tok''\<rparr>\<rparr>" "JStr ''Purchase''"
      "JObj [(''item'', JStr ''widget'')]" "[]"
      "[Call ''trackCharge'' [JStr ''tok'', JNum (Finite 9.99), JObj [(''item'', JStr ''widget'')]]]"
      JUndefined "\<lparr>people_token = ''tok''\<rparr>" "JNum (Finite 9.99)"]
  by (simp add: isWhiteSpace_def People_trackCharge_def ObjectHelper_isValidOrUndefined_def
      ObjectHelper_isValid_def js_or_def outcome_defs)

text \<open>
  Against C1 as it is worded (no forwarded bag is ever \<^verbatim>\<open>undefined\<close>, the
  \<^verbatim>\<open>groups\<close> argument included): \<^verbatim>\<open>trackWithGroups("Purchase", undefined, undefined)\<close>
  returns, and the fourth argument of the delegate's call is \<^verbatim>\<open>undefined\<close>.
\<close>

theorem trackWithGroups_forwards_undefined_groups:
  "Mixpanel_trackWithGroups \<lparr>token = ''tok'', people = \<lparr>people_token = ''tok''\<rparr>\<rparr>
     (JStr ''Purchase'') JUndefined JUndefined [] =
   (Inr (), [Call ''trackWithGroups'' [JStr ''tok'', JStr ''Purchase'', JObj [], JUndefined]])"
  by (simp add: Mixpanel_trackWithGroups_def ObjectHelper_isValidOrUndefined_def js_or_def
      outcome_defs isWhiteSpace_def)

subsection \<open>Amounts\<close>

text \<open>
  C2, as the code has it. When \<^verbatim>\<open>People.trackCharge\<close> returns, the delegate has
  received the charge as the caller gave it, and \<^verbatim>\<open>parseFloat\<close> of the charge is not
  NaN. When \<^verbatim>\<open>People.increment\<close> returns, the delegate has received one bag, and
  \<^verbatim>\<open>parseFloat\<close> of every value in the bag is not NaN. (The values themselves may be
  strings that start with a number, or infinite.)
\<close>

theorem forwarded_amounts_parse:
  "(People_trackCharge this charge properties d = (Inr (), d') \<longrightarrow>
      \<not> isNaN (parseFloat charge)
      \<and> (\<exists>bag. d' = d @ [Call ''trackCharge'' [JStr (people_token this), charge, bag]]))
   \<and> (People_increment this prop by d = (Inr (), d') \<longrightarrow>
      (\<exists>add. d' = d @ [Call ''increment'' [JStr (people_token this), JObj add]]
         \<and> (\<forall>kv \<in> set add. \<not> isNaN (parseFloat (snd kv)))))"
proof -
  have charge: "People_trackCharge this charge properties d = (Inr (), d') \<longrightarrow>
      \<not> isNaN (parseFloat charge)
      \<and> (\<exists>bag. d' = d @ [Call ''trackCharge'' [JStr (people_token this), charge, bag]])"
    by (auto simp: People_trackCharge_def outcome_defs split: if_splits)
  have incr: "\<exists>add. d' = d @ [Call ''increment'' [JStr (people_token this), JObj add]]
         \<and> (\<forall>kv \<in> set add. \<not> isNaN (parseFloat (snd kv)))"
    if run: "People_increment this prop by d = (Inr (), d')"
  proof (cases "ObjectHelper_isValid prop")
    case True
    with run obtain keys add where "increment_forEach prop keys [] = Inr add"
      and "d' = d @ [Call ''increment'' [JStr (people_token this), JObj add]]"
      by (auto simp: People_increment_def outcome_defs split: sum.splits)
    then show ?thesis using increment_forEach_values [of "prop" "keys" "[]" "add"] by auto
  next
    case False
    with run show ?thesis
      by (auto simp: People_increment_def outcome_defs Let_def js_assign_def
          split: if_splits jsval.splits)
  qed
  from charge incr show ?thesis by blast
qed

theorem forwarded_amounts_parse_witness:
  "People_trackCharge \<lparr>people_token = ''tok''\<rparr> (JNum (Finite 9.99)) JUndefined [] =
       (Inr (), [Call ''trackCharge'' [JStr ''tok'', JNum (Finite 9.99), JObj []]])
   \<and> \<not> isNaN (parseFloat (JNum (Finite 9.99)))
   \<and> People_increment \<lparr>people_token = ''tok''\<rparr> (JObj [(''count'', JStr ''2'')]) JUndefined [] =
       (Inr (), [Call ''increment'' [JStr ''tok'', JObj [(''count'', JStr ''2'')]]])
   \<and> \<not> isNaN (parseFloat (JStr ''2''))"
  using forwarded_amounts_parse [of "\<lparr>people_token = ''tok''\<rparr>" "JNum (Finite 9.99)" JUndefined "[]"
      "[Call ''trackCharge'' [JStr ''tok'', JNum (Finite 9.99), JObj []]]"
      "JObj [(''count'', JStr ''2'')]" JUndefined]
    forwarded_amounts_parse [of "\<lparr>people_token = ''tok''\<rparr>" "JNum (Finite 9.99)" JUndefined "[]"
      "[Call ''increment'' [JStr ''tok'', JObj [(''count'', JStr ''2'')]]]"
      "JObj [(''count'', JStr ''2'')]" JUndefined]
  by (simp add: People_trackCharge_def People_increment_def ObjectHelper_isValidOrUndefined_def
      ObjectHelper_isValid_def get_property_def js_or_def outcome_defs isWhiteSpace_def
      isDigit_def parseFloat_string_def js_assign_def)

text \<open>
  Against C2 as it is worded (every forwarded amount is a finite number):
  \<^verbatim>\<open>trackCharge(Infinity)\<close> returns and forwards \<^verbatim>\<open>Infinity\<close>, and
  \<^verbatim>\<open>increment("count", "5 apples")\<close> returns and forwards the string
  \<^verbatim>\<open>5 apples\<close>; neither is a finite number.
\<close>

theorem trackCharge_forwards_infinity:
  "People_trackCharge \<lparr>people_token = ''tok''\<rparr> (JNum PosInfinity) JUndefined [] =
     (Inr (), [Call ''trackCharge'' [JStr ''tok'', JNum PosInfinity, JObj []]])
   \<and> \<not> Number_isFinite (JNum PosInfinity)
   \<and> People_increment \<lparr>people_token = ''tok''\<rparr> (JStr ''count'') (JStr ''5 apples'') [] =
     (Inr (), [Call ''increment'' [JStr ''tok'', JObj [(''count'', JStr ''5 apples'')]]])
   \<and> \<not> Number_isFinite (JStr ''5 apples'')"
  by (simp add: People_trackCharge_def People_increment_def ObjectHelper_isValidOrUndefined_def
      ObjectHelper_isValid_def js_or_def outcome_defs isWhiteSpace_def isDigit_def
      parseFloat_string_def js_assign_def)

subsection \<open>The two shapes of \<^verbatim>\<open>increment\<close>\<close>

text \<open>
  C3, as the code has it. \<^verbatim>\<open>People.increment\<close> with an object (its keys are distinct)
  or an array, whose properties are its elements under their indices: it throws
  \<^verbatim>\<open>property value is not a valid number\<close>, and the delegate receives nothing, exactly
  when \<^verbatim>\<open>parseFloat\<close> of some value is NaN; otherwise the delegate receives the
  properties as the bag. With a name that is a string and not blank: without an amount the
  bag holds 1 under the name; with a truthy amount the bag holds the amount under the name
  when \<^verbatim>\<open>parseFloat\<close> of the amount is not NaN, and the same error is thrown when it is
  NaN. What happens with \<^verbatim>\<open>null\<close> and with the key \<^verbatim>\<open>__proto__\<close> is not part of
  the statement.
\<close>

theorem increment_polymorphic:
  "(distinct (map fst kvs) \<and> ''__proto__'' \<notin> fst ` set kvs \<longrightarrow>
      People_increment this (JObj kvs) by d =
        (if \<exists>kv \<in> set kvs. isNaN (parseFloat (snd kv))
         then (Inl (Error ''property value is not a valid number''), d)
         else (Inr (), d @ [Call ''increment'' [JStr (people_token this), JObj kvs]])))
   \<and> People_increment this (JArr xs) by d =
        (if \<exists>x \<in> set xs. isNaN (parseFloat x)
         then (Inl (Error ''property value is not a valid number''), d)
         else (Inr (), d @ [Call ''increment''
                 [JStr (people_token this), JObj (zip (map index_key [0..<length xs]) xs)]]))
   \<and> (\<not> list_all isWhiteSpace prop \<and> prop \<noteq> ''__proto__'' \<longrightarrow>
      People_increment this (JStr prop) JUndefined d =
        (Inr (), d @ [Call ''increment''
           [JStr (people_token this), JObj [(prop, JNum (Finite 1))]]]))
   \<and> (\<not> list_all isWhiteSpace prop \<and> prop \<noteq> ''__proto__'' \<and> truthy by \<longrightarrow>
      People_increment this (JStr prop) by d =
        (if isNaN (parseFloat by)
         then (Inl (Error ''property value is not a valid number''), d)
         else (Inr (), d @ [Call ''increment'' [JStr (people_token this), JObj [(prop, by)]]])))"
proof -
  have entries: "People_increment this obj by d =
        (if \<exists>kv \<in> set (own_entries obj). isNaN (parseFloat (snd kv))
         then (Inl (Error ''property value is not a valid number''), d)
         else (Inr (), d @ [Call ''increment''
                 [JStr (people_token this), JObj (own_entries obj)]]))"
    if "typeof obj = ''object''" and "obj \<noteq> JNull"
      and "distinct (map fst (own_entries obj))"
      and "''__proto__'' \<notin> fst ` set (own_entries obj)" for obj
  proof -
    from that(1,2) have keys: "Object_keys obj = Inr (map fst (own_entries obj))"
      by (cases obj) simp_all
    show ?thesis
      using increment_forEach_distinct [of obj "[]" "own_entries obj"] that keys
      by (simp add: People_increment_def ObjectHelper_isValid_def outcome_defs)
  qed
  have obj: "distinct (map fst kvs) \<and> ''__proto__'' \<notin> fst ` set kvs \<longrightarrow>
      People_increment this (JObj kvs) by d =
        (if \<exists>kv \<in> set kvs. isNaN (parseFloat (snd kv))
         then (Inl (Error ''property value is not a valid number''), d)
         else (Inr (), d @ [Call ''increment'' [JStr (people_token this), JObj kvs]]))"
    using entries [of "JObj kvs"] by simp
  have keys: "fst ` set (own_entries (JArr xs)) = index_key ` {0..<length xs}"
    using array_entries [of xs] by (metis list.set_map set_upt)
  have vals: "snd ` set (own_entries (JArr xs)) = set xs"
    using array_entries [of xs] by (metis list.set_map)
  have some: "(\<exists>kv \<in> set (own_entries (JArr xs)). isNaN (parseFloat (snd kv)))
      = (\<exists>x \<in> set xs. isNaN (parseFloat x))"
    using vals by (metis (no_types, lifting) image_iff)
  have "''__proto__'' \<notin> fst ` set (own_entries (JArr xs))"
    unfolding keys using index_key_not_proto by (metis imageE)
  moreover have "distinct (map fst (own_entries (JArr xs)))"
    using array_entries [of xs] distinct_index_keys [of "length xs"] by metis
  ultimately have arr: "People_increment this (JArr xs) by d =
        (if \<exists>x \<in> set xs. isNaN (parseFloat x)
         then (Inl (Error ''property value is not a valid number''), d)
         else (Inr (), d @ [Call ''increment''
                 [JStr (people_token this), JObj (zip (map index_key [0..<length xs]) xs)]]))"
    using entries [of "JArr xs"] some by simp
  have str: "\<not> list_all isWhiteSpace prop \<and> prop \<noteq> ''__proto__'' \<longrightarrow>
      People_increment this (JStr prop) JUndefined d =
        (Inr (), d @ [Call ''increment''
           [JStr (people_token this), JObj [(prop, JNum (Finite 1))]]])"
    by (simp add: People_increment_def string_not_object js_or_def outcome_defs assign_empty)
  have amount: "\<not> list_all isWhiteSpace prop \<and> prop \<noteq> ''__proto__'' \<and> truthy by \<longrightarrow>
      People_increment this (JStr prop) by d =
        (if isNaN (parseFloat by)
         then (Inl (Error ''property value is not a valid number''), d)
         else (Inr (), d @ [Call ''increment'' [JStr (people_token this), JObj [(prop, by)]]]))"
    by (simp add: People_increment_def string_not_object js_or_def outcome_defs message_defs
        assign_empty)
  from obj arr str amount show ?thesis by blast
qed

theorem increment_polymorphic_witness:
  "distinct (map fst [(''count'', JStr ''abc'')])
   \<and> ''__proto__'' \<notin> fst ` set [(''count'', JStr ''abc'')]
   \<and> People_increment \<lparr>people_token = ''tok''\<rparr> (JObj [(''count'', JStr ''abc'')]) JUndefined [] =
       (Inl (Error ''property value is not a valid number''), [])
   \<and> People_increment \<lparr>people_token = ''tok''\<rparr> (JObj [(''count'', JNum (Finite 2)), (''n'', JStr ''3'')])
         (JNum (Finite (- 5))) [] =
       (Inr (), [Call ''increment''
          [JStr ''tok'', JObj [(''count'', JNum (Finite 2)), (''n'', JStr ''3'')]]])
   \<and> People_increment \<lparr>people_token = ''tok''\<rparr> (JArr [JNum (Finite 2), JStr ''3'']) JUndefined [] =
       (Inr (), [Call ''increment''
          [JStr ''tok'', JObj [(''0'', JNum (Finite 2)), (''1'', JStr ''3'')]]])
   \<and> \<not> list_all isWhiteSpace ''count'' \<and> truthy (JNum (Finite (- 5)))
   \<and> People_increment \<lparr>people_token = ''tok''\<rparr> (JStr ''count'') JUndefined [] =
       (Inr (), [Call ''increment'' [JStr ''tok'', JObj [(''count'', JNum (Finite 1))]]])
   \<and> People_increment \<lparr>people_token = ''tok''\<rparr> (JStr ''count'') (JNum (Finite (- 5))) [] =
       (Inr (), [Call ''increment'' [JStr ''tok'', JObj [(''count'', JNum (Finite (- 5)))]]])"
proof -
  have keys: "char_of (48 :: nat) = CHR ''0'' \<and> char_of (49 :: nat) = CHR ''1''"
    by code_simp
  show ?thesis
    using increment_polymorphic [of "[(''count'', JStr ''abc'')]" "\<lparr>people_token = ''tok''\<rparr>" JUndefined "[]"
        "[JNum (Finite 2), JStr ''3'']" "''count''"]
      increment_polymorphic [of "[(''count'', JNum (Finite 2)), (''n'', JStr ''3'')]"
        "\<lparr>people_token = ''tok''\<rparr>" "JNum (Finite (- 5))" "[]" "[]" "''count''"]
    by (simp add: keys isWhiteSpace_def isDigit_def parseFloat_string_def)
qed

text \<open>
  Against C3 as it is worded (the call fails when a value of the object does not parse as a
  finite number): \<^verbatim>\<open>increment({count: Infinity})\<close> does not fail, though
  \<^verbatim>\<open>parseFloat(Infinity)\<close> is \<^verbatim>\<open>Infinity\<close>, which is no finite number.
\<close>

theorem increment_accepts_infinite_value:
  "People_increment \<lparr>people_token = ''tok''\<rparr> (JObj [(''count'', JNum PosInfinity)]) JUndefined [] =
     (Inr (), [Call ''increment'' [JStr ''tok'', JObj [(''count'', JNum PosInfinity)]]])
   \<and> \<not> Number_isFinite (JNum (parseFloat (JNum PosInfinity)))"
  by (simp add: People_increment_def ObjectHelper_isValid_def get_property_def outcome_defs
      js_assign_def)

subsection \<open>The two shapes of \<^verbatim>\<open>set\<close> and \<^verbatim>\<open>setOnce\<close>\<close>

text \<open>
  C4, as the code has it. For every first argument but the string \<^verbatim>\<open>__proto__\<close>,
  \<^verbatim>\<open>People.set\<close>, \<^verbatim>\<open>People.setOnce\<close>, \<^verbatim>\<open>MixpanelGroup.set\<close> and
  \<^verbatim>\<open>MixpanelGroup.setOnce\<close> all follow the one rule \<open>resolve_bag\<close>: each throws the
  rule's error without calling the delegate, or calls the delegate with the rule's bag as
  the last argument. By the rule, an argument of type object other than \<^verbatim>\<open>null\<close> is
  forwarded as its JSON copy, whatever the second argument, which is an equal copy when JSON
  can hold the argument; \<^verbatim>\<open>null\<close> is forwarded as the empty bag; a string that is not
  blank gives the bag of that one property with the second argument as its value; any other
  argument gives the error \<^verbatim>\<open>prop is not a valid string\<close>.
\<close>

theorem set_resolves_one_bag:
  "(prop \<noteq> JStr ''__proto__'' \<longrightarrow>
      People_set p prop to d = forward_bag ''set'' [JStr (people_token p)] (resolve_bag prop to) d
    \<and> People_setOnce p prop to d =
        forward_bag ''setOnce'' [JStr (people_token p)] (resolve_bag prop to) d
    \<and> MixpanelGroup_set g prop to d =
        forward_bag ''groupSetProperties'' [JStr (group_token g), groupKey g, groupID g]
          (resolve_bag prop to) d
    \<and> MixpanelGroup_setOnce g prop to d =
        forward_bag ''groupSetPropertyOnce'' [JStr (group_token g), groupKey g, groupID g]
          (resolve_bag prop to) d)
   \<and> (typeof prop = ''object'' \<and> prop \<noteq> JNull \<longrightarrow> resolve_bag prop to = Inr (json_copy prop))
   \<and> (typeof prop = ''object'' \<and> prop \<noteq> JNull \<and> json_clean prop \<longrightarrow>
        resolve_bag prop to = Inr prop)
   \<and> resolve_bag JNull to = Inr (JObj [])
   \<and> (\<not> list_all isWhiteSpace s \<longrightarrow> resolve_bag (JStr s) to = Inr (JObj [(s, to)]))
   \<and> (typeof prop \<noteq> ''object'' \<and> \<not> StringHelper_isValid prop \<longrightarrow>
        resolve_bag prop to = Inl (Error ''prop is not a valid string''))"
proof -
  have methods: "People_set p prop to d =
        forward_bag ''set'' [JStr (people_token p)] (resolve_bag prop to) d
    \<and> People_setOnce p prop to d =
        forward_bag ''setOnce'' [JStr (people_token p)] (resolve_bag prop to) d
    \<and> MixpanelGroup_set g prop to d =
        forward_bag ''groupSetProperties'' [JStr (group_token g), groupKey g, groupID g]
          (resolve_bag prop to) d
    \<and> MixpanelGroup_setOnce g prop to d =
        forward_bag ''groupSetPropertyOnce'' [JStr (group_token g), groupKey g, groupID g]
          (resolve_bag prop to) d"
    if named: "prop \<noteq> JStr ''__proto__''"
  proof (cases "typeof prop = ''object''")
    case True
    then show ?thesis
      using object_copy [OF True]
      by (simp add: People_set_def People_setOnce_def MixpanelGroup_set_def
          MixpanelGroup_setOnce_def ObjectHelper_isValid_def resolve_bag_def forward_bag_def
          outcome_defs)
  next
    case False
    then show ?thesis
      using named
      by (cases "prop")
        (simp_all add: People_set_def People_setOnce_def MixpanelGroup_set_def
          MixpanelGroup_setOnce_def ObjectHelper_isValid_def resolve_bag_def forward_bag_def
          outcome_defs message_defs assign_empty)
  qed
  have json: "typeof prop = ''object'' \<and> prop \<noteq> JNull \<longrightarrow>
        resolve_bag prop to = Inr (json_copy prop)"
    by (simp add: resolve_bag_def)
  have copy: "typeof prop = ''object'' \<and> prop \<noteq> JNull \<and> json_clean prop \<longrightarrow>
        resolve_bag prop to = Inr prop"
    by (simp add: resolve_bag_def json_copy_clean)
  have null: "resolve_bag JNull to = Inr (JObj [])"
    by (simp add: resolve_bag_def)
  have str: "\<not> list_all isWhiteSpace s \<longrightarrow> resolve_bag (JStr s) to = Inr (JObj [(s, to)])"
    by (simp add: resolve_bag_def)
  have bad: "typeof prop \<noteq> ''object'' \<and> \<not> StringHelper_isValid prop \<longrightarrow>
        resolve_bag prop to = Inl (Error ''prop is not a valid string'')"
    by (cases "prop") (simp_all add: resolve_bag_def)
  from methods json copy null str bad show ?thesis by blast
qed

theorem set_resolves_one_bag_witness:
  "JStr ''age'' \<noteq> JStr ''__proto__''
   \<and> People_set \<lparr>people_token = ''tok''\<rparr> (JStr ''age'') (JNum (Finite 30)) [] =
     (Inr (), [Call ''set'' [JStr ''tok'', JObj [(''age'', JNum (Finite 30))]]])
   \<and> People_set \<lparr>people_token = ''tok''\<rparr>
        (JObj [(''age'', JNum (Finite 30)), (''city'', JStr ''NYC'')]) (JNum (Finite 99)) [] =
     (Inr (), [Call ''set'' [JStr ''tok'',
        JObj [(''age'', JNum (Finite 30)), (''city'', JStr ''NYC'')]]])
   \<and> MixpanelGroup_set \<lparr>group_token = ''tok'', groupKey = JStr ''company'', groupID = JNum (Finite 7)\<rparr>
        (JObj [(''age'', JNum (Finite 30)), (''city'', JStr ''NYC'')]) (JNum (Finite 99)) [] =
     (Inr (), [Call ''groupSetProperties'' [JStr ''tok'', JStr ''company'', JNum (Finite 7),
        JObj [(''age'', JNum (Finite 30)), (''city'', JStr ''NYC'')]]])
   \<and> MixpanelGroup_setOnce \<lparr>group_token = ''tok'', groupKey = JStr ''company'', groupID = JNum (Finite 7)\<rparr> (JStr ''age'') (JNum (Finite 30)) [] =
     (Inr (), [Call ''groupSetPropertyOnce'' [JStr ''tok'', JStr ''company'', JNum (Finite 7),
        JObj [(''age'', JNum (Finite 30))]]])
   \<and> People_setOnce \<lparr>people_token = ''tok''\<rparr> (JNum (Finite 5)) (JNum (Finite 30)) [] =
     (Inl (Error ''prop is not a valid string''), [])"
  using set_resolves_one_bag [of "JStr ''age''" "\<lparr>people_token = ''tok''\<rparr>" "JNum (Finite 30)" "[]"
      "\<lparr>group_token = ''tok'', groupKey = JStr ''company'', groupID = JNum (Finite 7)\<rparr>" "''age''"]
    set_resolves_one_bag [of "JObj [(''age'', JNum (Finite 30)), (''city'', JStr ''NYC'')]"
      "\<lparr>people_token = ''tok''\<rparr>" "JNum (Finite 99)" "[]"
      "\<lparr>group_token = ''tok'', groupKey = JStr ''company'', groupID = JNum (Finite 7)\<rparr>" "''age''"]
    set_resolves_one_bag [of "JNum (Finite 5)" "\<lparr>people_token = ''tok''\<rparr>" "JNum (Finite 30)" "[]"
      "\<lparr>group_token = ''tok'', groupKey = JStr ''company'', groupID = JNum (Finite 7)\<rparr>" "''age''"]
  by (simp add: forward_bag_def isWhiteSpace_def)

text \<open>
  Against C4 as it is worded (for an argument of type object the forwarded bag is a deep copy
  of the argument): \<^verbatim>\<open>null\<close> has type object, and \<^verbatim>\<open>set(null, 30)\<close> forwards the
  empty bag, not \<^verbatim>\<open>null\<close>; and \<^verbatim>\<open>set({a: undefined, n: NaN})\<close> forwards
  \<^verbatim>\<open>{n: null}\<close>, which is not equal to the argument.
\<close>

theorem people_set_forwards_no_copy:
  "ObjectHelper_isValid JNull
   \<and> People_set \<lparr>people_token = ''tok''\<rparr> JNull (JNum (Finite 30)) [] =
       (Inr (), [Call ''set'' [JStr ''tok'', JObj []]])
   \<and> People_set \<lparr>people_token = ''tok''\<rparr> JNull (JNum (Finite 30)) [] \<noteq>
       (Inr (), [Call ''set'' [JStr ''tok'', JNull]])
   \<and> ObjectHelper_isValid (JObj [(''a'', JUndefined), (''n'', JNum NaN)])
   \<and> People_set \<lparr>people_token = ''tok''\<rparr> (JObj [(''a'', JUndefined), (''n'', JNum NaN)]) JUndefined [] =
       (Inr (), [Call ''set'' [JStr ''tok'', JObj [(''n'', JNull)]]])
   \<and> People_set \<lparr>people_token = ''tok''\<rparr> (JObj [(''a'', JUndefined), (''n'', JNum NaN)]) JUndefined [] \<noteq>
       (Inr (), [Call ''set'' [JStr ''tok'', JObj [(''a'', JUndefined), (''n'', JNum NaN)]]])"
  by (simp add: ObjectHelper_isValid_def People_set_def js_or_def JSON_parse_stringify_def
      outcome_defs)

subsection \<open>Initialisation\<close>

text \<open>
  C7. \<^verbatim>\<open>Mixpanel.init\<close>, for a \<^verbatim>\<open>package.json\<close> whose \<^verbatim>\<open>metadata\<close> is an object
  (distinct keys) and super properties with distinct keys: the metadata is the JSON copy of
  \<^verbatim>\<open>packageJson.metadata\<close> with \<^verbatim>\<open>$lib_version\<close> set to \<^verbatim>\<open>packageJson.version\<close>;
  the delegate receives one call of \<^verbatim>\<open>initialize\<close> with the token, the opt-out default
  (\<^verbatim>\<open>false\<close> when left out) and a bag; in the bag every key of the caller's super
  properties has the caller's value, also when the metadata has the key, and every other
  key has what the metadata has.
\<close>

theorem init_merges_caller_over_metadata:
  assumes "distinct (map fst (metadata pj))"
    and "distinct (map fst (own_entries superProperties))"
  shows "\<exists>m md bag.
      json_copy (JObj (metadata pj)) = JObj m
    \<and> md = AList.update ''$lib_version'' (version pj) m
    \<and> Helper_getMetaData pj = Inr md
    \<and> map_of md ''$lib_version'' = Some (version pj)
    \<and> Mixpanel_init pj this optOut superProperties d =
        (Inr (), d @ [Call ''initialize''
           [JStr (token this), if optOut = JUndefined then JBool False else optOut, JObj bag]])
    \<and> (\<forall>k v. map_of (own_entries superProperties) k = Some v \<longrightarrow> map_of bag k = Some v)
    \<and> (\<forall>k. map_of (own_entries superProperties) k = None \<longrightarrow> map_of bag k = map_of md k)"
proof -
  define m where "m = filter (\<lambda>kv. snd kv \<noteq> JUndefined) (map (map_prod id json_copy) (metadata pj))"
  define md where "md = AList.update ''$lib_version'' (version pj) m"
  define sp where "sp = default_param superProperties (JObj [])"
  define bag where "bag = object_spread (object_spread [] (JObj md)) sp"
  have copy: "json_copy (JObj (metadata pj)) = JObj m"
    by (simp add: m_def)
  have meta: "Helper_getMetaData pj = Inr md"
    by (simp add: getMetaData_object md_def m_def)
  have version: "map_of md ''$lib_version'' = Some (version pj)"
    by (simp add: md_def update_conv')
  have "distinct (map fst m)"
    unfolding m_def using assms(1) by (rule distinct_json_entries)
  then have dmd: "distinct (map fst md)"
    by (simp add: md_def distinct_update)
  have entries: "own_entries sp = own_entries superProperties"
    by (simp add: sp_def default_param_def)
  have inner: "map_of (object_spread [] (JObj md)) k = map_of md k" for k
    using spread_lookup [OF dmd, of "[]" k]
    by (simp add: object_spread_def split: option.splits)
  have outer: "map_of bag k =
      (case map_of (own_entries sp) k of Some v \<Rightarrow> Some v
       | None \<Rightarrow> map_of (object_spread [] (JObj md)) k)" for k
    unfolding bag_def object_spread_def [of "object_spread [] (JObj md)" sp]
    using assms(2) entries by (intro spread_lookup) simp
  have lookup: "map_of bag k =
      (case map_of (own_entries superProperties) k of Some v \<Rightarrow> Some v | None \<Rightarrow> map_of md k)" for k
    by (simp add: outer inner entries split: option.splits)
  have run: "Mixpanel_init pj this optOut superProperties d =
        (Inr (), d @ [Call ''initialize''
           [JStr (token this), if optOut = JUndefined then JBool False else optOut, JObj bag]])"
    by (simp add: Mixpanel_init_def meta bag_def sp_def default_param_def DEFAULT_OPT_OUT_def
        outcome_defs)
  from copy meta version run lookup show ?thesis
    unfolding md_def [symmetric] by (intro exI [of _ m] exI [of _ md] exI [of _ bag]) (simp add: md_def)
qed

theorem init_merges_caller_over_metadata_witness:
  "distinct (map fst (metadata \<lparr>metadata = [(''mp_lib'', JStr ''react-native'')], version = JStr ''1.3.0''\<rparr>))
   \<and> distinct (map fst (own_entries (JObj [(''mp_lib'', JStr ''mine''), (''plan'', JStr ''pro'')])))
   \<and> Mixpanel_init \<lparr>metadata = [(''mp_lib'', JStr ''react-native'')], version = JStr ''1.3.0''\<rparr>
        \<lparr>token = ''tok'', people = \<lparr>people_token = ''tok''\<rparr>\<rparr> JUndefined
        (JObj [(''mp_lib'', JStr ''mine''), (''plan'', JStr ''pro'')]) [] =
       (Inr (), [Call ''initialize'' [JStr ''tok'', JBool False,
          JObj [(''mp_lib'', JStr ''mine''), (''$lib_version'', JStr ''1.3.0''),
                (''plan'', JStr ''pro'')]]])"
  using init_merges_caller_over_metadata
    [of "\<lparr>metadata = [(''mp_lib'', JStr ''react-native'')], version = JStr ''1.3.0''\<rparr>"
      "JObj [(''mp_lib'', JStr ''mine''), (''plan'', JStr ''pro'')]" "\<lparr>token = ''tok'', people = \<lparr>people_token = ''tok''\<rparr>\<rparr>" JUndefined "[]"]
  by (simp add: Mixpanel_init_def Helper_getMetaData_def JSON_parse_stringify_def
      object_spread_def default_param_def DEFAULT_OPT_OUT_def outcome_defs)

end
